theory Spec2Isabelle
  imports Main "HOL-Library.Word" "HOL-Library.FSet" "HOL-Library.Char_ord"
    "HOL-Library.List_Lexorder"
begin

section \<open>aapt2 cmd/Util.cpp: split parameters, split manifests and manifest extraction\<close>

text \<open>
  A shallow embedding of \<^verbatim>\<open>frameworks/base/tools/aapt2/cmd/Util.cpp\<close>.
  The functions of that file are HOL functions of the same names, except
  \<^verbatim>\<open>ParseConfigFilterParameters\<close>, which is left out. The diagnostics sink
  \<^verbatim>\<open>IDiagnostics* diag\<close> is a log that is passed in and returned extended, out-parameters
  are passed in and returned, and \<^verbatim>\<open>Maybe<T>\<close> is \<open>'a option\<close>.
\<close>

subsection \<open>Machine integers\<close>

type_synonym uint8_t = "8 word"
type_synonym uint16_t = "16 word"
type_synonym uint32_t = "32 word"

text \<open>A C++ \<^verbatim>\<open>int\<close>: 32 bits, read as two's complement by \<open>sint\<close>.\<close>

type_synonym int32_t = "32 word"

subsection \<open>Diagnostics\<close>

text \<open>
  Modelled from the spec: \<^verbatim>\<open>Source\<close> is declared outside this file. A message is
  "optionally anchored to a source location (file + optional line number)".
\<close>

record Source =
  path :: string
  line :: "nat option"

text \<open>
  Modelled from the spec: the source of \<^verbatim>\<open>DiagMessage()\<close>, a message that is given no
  location, is declared outside this file: no file and no line.
\<close>

definition NoSource :: Source where
  "NoSource = \<lparr>path = [], line = None\<rparr>"

text \<open>
  Modelled from the spec: \<^verbatim>\<open>Source::WithLine\<close> is declared outside this file: the same
  file with the line number given.
\<close>

definition WithLine :: "Source \<Rightarrow> nat \<Rightarrow> Source" where
  "WithLine src l = \<lparr>path = path src, line = Some l\<rparr>"

text \<open>
  Modelled from the spec: \<^verbatim>\<open>DiagMessage\<close> and \<^verbatim>\<open>IDiagnostics\<close> are declared outside
  this file. The sink has the operations "\<^verbatim>\<open>Error(message)\<close>, \<^verbatim>\<open>Warn(message)\<close>,
  \<^verbatim>\<open>Note(message)\<close> - append-only, each message optionally anchored to a source
  location": it is the list of what was reported, in order, and \<open>Emit\<close> is the three
  operations, by level.
\<close>

datatype Level = Note | Warn | Error

record DiagMessage =
  level :: Level
  location :: Source
  message :: string

type_synonym IDiagnostics = "DiagMessage list"

definition Emit :: "Level \<Rightarrow> IDiagnostics \<Rightarrow> Source \<Rightarrow> string \<Rightarrow> IDiagnostics" where
  "Emit lv diag src msg = diag @ [\<lparr>level = lv, location = src, message = msg\<rparr>]"

subsection \<open>Compiled values and XML attributes\<close>

text \<open>
  Modelled from the spec: the resource value classes are declared outside this file. An
  attribute's compiled value is an \<^verbatim>\<open>Item\<close>; the two kinds this file inspects are
  \<^verbatim>\<open>String\<close> (the pooled text) and \<^verbatim>\<open>BinaryPrimitive\<close> (a \<^verbatim>\<open>Res_value\<close> with its
  \<^verbatim>\<open>dataType\<close> tag and 32-bit \<^verbatim>\<open>data\<close>); \<open>OtherItem\<close> stands for every other kind.
\<close>

record Res_value =
  dataType :: uint8_t
  data :: uint32_t

datatype Item = String string | BinaryPrimitive Res_value | OtherItem

text \<open>
  Modelled from the spec: \<^verbatim>\<open>ValueCast<T>\<close> is defined outside this file. It gives the
  value back when it is of kind \<^verbatim>\<open>T\<close> ("of the exact expected kind") and null
  otherwise; these are its instances for \<^verbatim>\<open>String\<close> and \<^verbatim>\<open>BinaryPrimitive\<close>.
\<close>

fun ValueCast_String :: "Item \<Rightarrow> string option" where
  "ValueCast_String (String s) = Some s"
| "ValueCast_String _ = None"

fun ValueCast_BinaryPrimitive :: "Item \<Rightarrow> Res_value option" where
  "ValueCast_BinaryPrimitive (BinaryPrimitive v) = Some v"
| "ValueCast_BinaryPrimitive _ = None"

text \<open>
  Modelled from the spec: \<^verbatim>\<open>xml::Attribute\<close> is declared outside this file: "a
  namespace + local name + textual value + optional compiled (typed) value", and the
  optional compiled attribute, of which this file sets the resource id only.
\<close>

record Attribute =
  namespace_uri :: string
  name :: string
  "value" :: string
  compiled_attribute :: "uint32_t option"
  compiled_value :: "Item option"

text \<open>
  What this file uses and does not define: the android schema URI, the bounds of the
  integer range of \<^verbatim>\<open>Res_value\<close> type tags, the two tags the synthesizer writes, and
  the two text parsers of \<^verbatim>\<open>ResourceUtils\<close>. They are parameters of the model.
\<close>

record Externals =
  kSchemaAndroid :: string
  TYPE_FIRST_INT :: uint8_t
  TYPE_LAST_INT :: uint8_t
  TYPE_INT_DEC :: uint8_t
  TYPE_INT_BOOLEAN :: uint8_t
  ParseInt :: "string \<Rightarrow> uint32_t option"
  ParseSdkVersion :: "string \<Rightarrow> int32_t option"

subsection \<open>Binary attribute value extractors\<close>

text \<open>
  The extractors return \<^verbatim>\<open>Maybe<T>\<close> and write \<^verbatim>\<open>*out_error\<close> when they return nothing:
  \<open>Inl\<close> carries the text written to \<^verbatim>\<open>*out_error\<close>, \<open>Inr\<close> the value.
\<close>

definition ExtractCompiledString :: "Attribute \<Rightarrow> string + string" where
  "ExtractCompiledString attr =
     (case compiled_value attr of
        Some v \<Rightarrow>
          (case ValueCast_String v of
             Some compiled_str \<Rightarrow>
               if compiled_str \<noteq> [] then Inr compiled_str
               else Inl ''compiled value is an empty string''
           | None \<Rightarrow> Inl ''compiled value is not a string'')
      | None \<Rightarrow>
          if value attr \<noteq> [] then Inr (value attr)
          else Inl ''value is an empty string'')"

definition ExtractCompiledInt :: "Externals \<Rightarrow> Attribute \<Rightarrow> string + uint32_t" where
  "ExtractCompiledInt ext attr =
     (case compiled_value attr of
        Some v \<Rightarrow>
          (case ValueCast_BinaryPrimitive v of
             Some compiled_prim \<Rightarrow>
               if TYPE_FIRST_INT ext \<le> dataType compiled_prim \<and>
                  dataType compiled_prim \<le> TYPE_LAST_INT ext
               then Inr (data compiled_prim)
               else Inl ''compiled value is not an integer''
           | None \<Rightarrow> Inl ''compiled value is not an integer'')
      | None \<Rightarrow>
          (case ParseInt ext (value attr) of
             Some integer \<Rightarrow> Inr integer
           | None \<Rightarrow> Inl ([CHR 0x27] @ value attr @ [CHR 0x27] @ '' is not a valid integer'')))"

text \<open>
  \<^verbatim>\<open>ExtractSdkVersion\<close> returns \<^verbatim>\<open>Maybe<int>\<close>: the unsigned \<^verbatim>\<open>data\<close> is converted to
  \<^verbatim>\<open>int\<close>, which keeps the 32 bits.
\<close>

definition ExtractSdkVersion :: "Externals \<Rightarrow> Attribute \<Rightarrow> string + int32_t" where
  "ExtractSdkVersion ext attr =
     (case compiled_value attr of
        Some v \<Rightarrow>
          (case ValueCast_BinaryPrimitive v of
             Some compiled_prim \<Rightarrow>
               if TYPE_FIRST_INT ext \<le> dataType compiled_prim \<and>
                  dataType compiled_prim \<le> TYPE_LAST_INT ext
               then Inr (data compiled_prim)
               else Inl ''compiled value is not an integer or string''
           | None \<Rightarrow>
               (case ValueCast_String v of
                  Some compiled_str \<Rightarrow>
                    (case ParseSdkVersion ext compiled_str of
                       Some sdk_version \<Rightarrow> Inr sdk_version
                     | None \<Rightarrow> Inl ''compiled string value is not a valid SDK version'')
                | None \<Rightarrow> Inl ''compiled value is not an integer or string''))
      | None \<Rightarrow>
          (case ParseSdkVersion ext (value attr) of
             Some sdk_version \<Rightarrow> Inr sdk_version
           | None \<Rightarrow>
               Inl ([CHR 0x27] @ value attr @ [CHR 0x27] @ '' is not a valid SDK version'')))"

subsection \<open>The XML document model\<close>

text \<open>
  Modelled from the spec: the XML tree and \<^verbatim>\<open>xml::XmlResource\<close> are declared outside
  this file. An "element has name, namespace URI, line number, ordered attribute list,
  child-lookup-by-(namespace,name), attribute-lookup-by-(namespace,name), and supports
  appending a child element". A namespace declaration is a node that wraps its children
  (the synthesizer builds "a namespace-declaring root wrapping a \<^verbatim>\<open>manifest\<close> element").
  A node created by the synthesizer keeps the default line number 0. Of the
  \<^verbatim>\<open>ResourceFile\<close> of a document, this file reads the source only.
\<close>

datatype Node =
    Namespace (namespace_prefix: string) (ns_uri: string)
      (line_number: nat) (children: "Node list")
  | Element (element_namespace_uri: string) (element_name: string)
      (attributes: "Attribute list") (line_number: nat) (children: "Node list")
  | Text string

record ResourceFile =
  source :: Source

record XmlResource =
  "file" :: ResourceFile
  root :: "Node option"

text \<open>
  Modelled from the spec: \<^verbatim>\<open>xml::FindRootElement\<close> "locates the document's root
  element": the node itself when it is an element, the root element of the first child
  when it is a namespace declaration, and nothing otherwise.
\<close>

fun FindRootElementOf :: "Node \<Rightarrow> Node option" where
  "FindRootElementOf (Element ns n attrs l cs) = Some (Element ns n attrs l cs)"
| "FindRootElementOf (Namespace p u l []) = None"
| "FindRootElementOf (Namespace p u l (c # cs)) = FindRootElementOf c"
| "FindRootElementOf (Text t) = None"

definition FindRootElement :: "Node option \<Rightarrow> Node option" where
  "FindRootElement node = (case node of None \<Rightarrow> None | Some n \<Rightarrow> FindRootElementOf n)"

text \<open>
  Modelled from the spec: \<^verbatim>\<open>Element::FindAttribute\<close> is defined outside this file. It is
  the "attribute-lookup-by-(namespace,name)": the first attribute of the ordered list
  that has both.
\<close>

definition FindAttribute :: "Node \<Rightarrow> string \<Rightarrow> string \<Rightarrow> Attribute option" where
  "FindAttribute el ns n =
     find (\<lambda>attr. namespace_uri attr = ns \<and> name attr = n) (attributes el)"

text \<open>
  Modelled from the spec: \<^verbatim>\<open>Element::FindChild\<close> is defined outside this file. It is the
  "child-lookup-by-(namespace,name)": the first child that is an element and has both.
\<close>

fun is_named_element :: "string \<Rightarrow> string \<Rightarrow> Node \<Rightarrow> bool" where
  "is_named_element ns n (Element ens en attrs l cs) = (ens = ns \<and> en = n)"
| "is_named_element ns n _ = False"

definition FindChild :: "Node \<Rightarrow> string \<Rightarrow> string \<Rightarrow> Node option" where
  "FindChild el ns n = find (is_named_element ns n) (children el)"

text \<open>
  Modelled from the spec: \<^verbatim>\<open>Node::AppendChild\<close> is defined outside this file. It is
  "appending a child element": the new child comes after the ones there are.
\<close>

fun AppendChild :: "Node \<Rightarrow> Node \<Rightarrow> Node" where
  "AppendChild (Element ns n attrs l cs) child = Element ns n attrs l (cs @ [child])"
| "AppendChild (Namespace p u l cs) child = Namespace p u l (cs @ [child])"
| "AppendChild (Text t) child = Text t"

subsection \<open>AppInfo\<close>

text \<open>
  Modelled from the spec: \<^verbatim>\<open>AppInfo\<close> is declared outside this file. It is the record
  "\<^verbatim>\<open>package: string\<close>, \<^verbatim>\<open>version_code: optional uint32\<close>,
  \<^verbatim>\<open>revision_code: optional uint32\<close>, \<^verbatim>\<open>split_name: optional string\<close>,
  \<^verbatim>\<open>min_sdk_version: optional int\<close> (default 0 if absent)".
\<close>

record AppInfo =
  package :: string
  min_sdk_version :: "int32_t option"
  version_code :: "uint32_t option"
  revision_code :: "uint32_t option"
  split_name :: "string option"

text \<open>
  Modelled from the spec: the default constructor of \<^verbatim>\<open>AppInfo\<close> is declared outside this
  file. The package is empty and every optional field is absent ("field stays unset",
  "leaves split name unset", "leaves minimum SDK at its default").
\<close>

definition AppInfo_default :: AppInfo where
  "AppInfo_default =
     \<lparr>package = [], min_sdk_version = None, version_code = None,
      revision_code = None, split_name = None\<rparr>"

text \<open>
  Modelled from the spec: how the minimum SDK version is read is outside this file. It is
  "default 0 if absent".
\<close>

definition min_sdk_version_or_default :: "AppInfo \<Rightarrow> int32_t" where
  "min_sdk_version_or_default app_info =
     (case min_sdk_version app_info of None \<Rightarrow> 0 | Some v \<Rightarrow> v)"

subsection \<open>ExtractAppInfoFromBinaryManifest\<close>

text \<open>
  The function returns \<^verbatim>\<open>Maybe<AppInfo>\<close> and reports through \<^verbatim>\<open>diag\<close>: the model takes
  the log and returns the result with the log. The steps follow the source in order;
  each one either returns nothing with one error added to the log, or goes on.
\<close>

definition ExtractMinSdk ::
  "Externals \<Rightarrow> XmlResource \<Rightarrow> Node \<Rightarrow> AppInfo \<Rightarrow> IDiagnostics \<Rightarrow> AppInfo option \<times> IDiagnostics"
where
  "ExtractMinSdk ext xml_res manifest_el app_info diag =
     (case FindChild manifest_el [] ''uses-sdk'' of
        Some uses_sdk_el \<Rightarrow>
          (case FindAttribute uses_sdk_el (kSchemaAndroid ext) ''minSdkVersion'' of
             Some min_sdk \<Rightarrow>
               (case ExtractSdkVersion ext min_sdk of
                  Inl error_msg \<Rightarrow>
                    (None, Emit Error diag
                       (WithLine (source (file xml_res)) (line_number uses_sdk_el))
                       (''invalid android:minSdkVersion: '' @ error_msg))
                | Inr sdk \<Rightarrow> (Some (app_info\<lparr>min_sdk_version := Some sdk\<rparr>), diag))
           | None \<Rightarrow> (Some app_info, diag))
      | None \<Rightarrow> (Some app_info, diag))"

definition ExtractSplitName ::
  "Externals \<Rightarrow> XmlResource \<Rightarrow> Node \<Rightarrow> AppInfo \<Rightarrow> IDiagnostics \<Rightarrow> AppInfo option \<times> IDiagnostics"
where
  "ExtractSplitName ext xml_res manifest_el app_info diag =
     (case FindAttribute manifest_el [] ''split'' of
        Some split_name_attr \<Rightarrow>
          (case ExtractCompiledString split_name_attr of
             Inl error_msg \<Rightarrow>
               (None, Emit Error diag
                  (WithLine (source (file xml_res)) (line_number manifest_el))
                  (''invalid split name: '' @ error_msg))
           | Inr s \<Rightarrow>
               ExtractMinSdk ext xml_res manifest_el (app_info\<lparr>split_name := Some s\<rparr>) diag)
      | None \<Rightarrow> ExtractMinSdk ext xml_res manifest_el app_info diag)"

definition ExtractRevisionCode ::
  "Externals \<Rightarrow> XmlResource \<Rightarrow> Node \<Rightarrow> AppInfo \<Rightarrow> IDiagnostics \<Rightarrow> AppInfo option \<times> IDiagnostics"
where
  "ExtractRevisionCode ext xml_res manifest_el app_info diag =
     (case FindAttribute manifest_el (kSchemaAndroid ext) ''revisionCode'' of
        Some revision_code_attr \<Rightarrow>
          (case ExtractCompiledInt ext revision_code_attr of
             Inl error_msg \<Rightarrow>
               (None, Emit Error diag
                  (WithLine (source (file xml_res)) (line_number manifest_el))
                  (''invalid android:revisionCode: '' @ error_msg))
           | Inr code \<Rightarrow>
               ExtractSplitName ext xml_res manifest_el
                 (app_info\<lparr>revision_code := Some code\<rparr>) diag)
      | None \<Rightarrow> ExtractSplitName ext xml_res manifest_el app_info diag)"

definition ExtractVersionCode ::
  "Externals \<Rightarrow> XmlResource \<Rightarrow> Node \<Rightarrow> AppInfo \<Rightarrow> IDiagnostics \<Rightarrow> AppInfo option \<times> IDiagnostics"
where
  "ExtractVersionCode ext xml_res manifest_el app_info diag =
     (case FindAttribute manifest_el (kSchemaAndroid ext) ''versionCode'' of
        Some version_code_attr \<Rightarrow>
          (case ExtractCompiledInt ext version_code_attr of
             Inl error_msg \<Rightarrow>
               (None, Emit Error diag
                  (WithLine (source (file xml_res)) (line_number manifest_el))
                  (''invalid android:versionCode: '' @ error_msg))
           | Inr code \<Rightarrow>
               ExtractRevisionCode ext xml_res manifest_el
                 (app_info\<lparr>version_code := Some code\<rparr>) diag)
      | None \<Rightarrow> ExtractRevisionCode ext xml_res manifest_el app_info diag)"

definition ExtractAppInfoFromBinaryManifest ::
  "Externals \<Rightarrow> XmlResource \<Rightarrow> IDiagnostics \<Rightarrow> AppInfo option \<times> IDiagnostics"
where
  "ExtractAppInfoFromBinaryManifest ext xml_res diag =
     (case FindRootElement (root xml_res) of
        None \<Rightarrow> (None, diag)
      | Some manifest_el \<Rightarrow>
          if element_namespace_uri manifest_el \<noteq> [] \<or> element_name manifest_el \<noteq> ''manifest''
          then (None, Emit Error diag (source (file xml_res)) ''root tag must be <manifest>'')
          else
            (case FindAttribute manifest_el [] ''package'' of
               None \<Rightarrow>
                 (None, Emit Error diag (source (file xml_res))
                    ''<manifest> must have a 'package' attribute'')
             | Some package_attr \<Rightarrow>
                 (case ExtractCompiledString package_attr of
                    Inl error_msg \<Rightarrow>
                      (None, Emit Error diag
                         (WithLine (source (file xml_res)) (line_number manifest_el))
                         (''invalid package name: '' @ error_msg))
                  | Inr p \<Rightarrow>
                      ExtractVersionCode ext xml_res manifest_el
                        (AppInfo_default\<lparr>package := p\<rparr>) diag)))"

subsection \<open>Configuration descriptions and split constraints\<close>

text \<open>
  Modelled from the spec: \<^verbatim>\<open>ConfigDescription\<close> is declared outside this file; it is an
  "opaque, totally-ordered, diffable multi-axis value (density, locale, SDK version,
  screen, etc.)". This file reads and writes two axes by name, the 16-bit \<^verbatim>\<open>density\<close>
  and \<^verbatim>\<open>sdkVersion\<close>; all the other axes are the field \<open>axes\<close>, of any type.
\<close>

record 'r ConfigDescription =
  density :: uint16_t
  sdkVersion :: uint16_t
  axes :: 'r

text \<open>
  Modelled from the spec: \<^verbatim>\<open>ConfigDescription::CopyWithoutSdkVersion\<close> is defined outside
  this file. It is the "copy that has the SDK-version axis cleared", and clearing is
  what \<^verbatim>\<open>ParseTargetDensityParameter\<close> does by hand: \<^verbatim>\<open>sdkVersion = 0\<close>.
\<close>

definition CopyWithoutSdkVersion :: "'r ConfigDescription \<Rightarrow> 'r ConfigDescription" where
  "CopyWithoutSdkVersion config = config\<lparr>sdkVersion := 0\<rparr>"

text \<open>
  The parser, the axis difference, the default configuration and the density bit of the
  difference mask are used by this file and defined elsewhere: parameters of the model.
\<close>

record 'r ConfigExternals =
  Parse :: "string \<Rightarrow> 'r ConfigDescription option"
  diff :: "'r ConfigDescription \<Rightarrow> 'r ConfigDescription \<Rightarrow> int32_t"
  DefaultConfig :: "'r ConfigDescription"
  CONFIG_DENSITY :: int32_t

text \<open>
  Modelled from the spec: \<^verbatim>\<open>SplitConstraints\<close> is declared outside this file. It is "a
  set of ConfigDescriptor (unique by value, unordered semantically)", the
  \<^verbatim>\<open>std::set\<close> named \<^verbatim>\<open>configs\<close>: a finite set. The functions that only insert into
  the set and the one that prints it need nothing else from its elements, so the element
  type is a parameter.
\<close>

record 'c SplitConstraints =
  configs :: "'c fset"

subsection \<open>ParseTargetDensityParameter\<close>

definition ParseTargetDensityParameter ::
  "'r ConfigExternals \<Rightarrow> string \<Rightarrow> IDiagnostics \<Rightarrow> uint16_t option \<times> IDiagnostics"
where
  "ParseTargetDensityParameter cfg arg diag =
     (case Parse cfg arg of
        None \<Rightarrow>
          (None, Emit Error diag NoSource
             (''invalid density '' @ [CHR 0x27] @ arg @ [CHR 0x27] @
              '' for --preferred-density option''))
      | Some parsed \<Rightarrow>
          (let preferred_density_config = parsed\<lparr>sdkVersion := 0\<rparr> in
           if diff cfg preferred_density_config (DefaultConfig cfg) \<noteq> CONFIG_DENSITY cfg
           then
             (None, Emit Error diag NoSource
                (''invalid preferred density '' @ [CHR 0x27] @ arg @ [CHR 0x27] @ ''. '' @
                 ''Preferred density must only be a density value''))
           else (Some (density preferred_density_config), diag)))"

subsection \<open>ParseSplitParameter\<close>

text \<open>
  Modelled from the spec: \<^verbatim>\<open>util::Split\<close> is defined outside this file. It cuts a string
  into its parts at the separator character (the caller checks that "the part count is
  exactly two"): at every occurrence, and the parts between two separators, before the
  first and after the last are all kept, so a string without the separator is one part.
\<close>

fun Split :: "string \<Rightarrow> char \<Rightarrow> string list" where
  "Split [] sep = [[]]"
| "Split (c # cs) sep =
     (if c = sep then [] # Split cs sep
      else (case Split cs sep of [] \<Rightarrow> [[c]] | p # ps \<Rightarrow> (c # p) # ps))"

text \<open>
  Modelled from the spec: \<^verbatim>\<open>util::Tokenize\<close> is defined outside this file. It gives the
  tokens of a string ("tokenize the second part on \<^verbatim>\<open>,\<close>"), cut as \<open>Split\<close> cuts.
\<close>

definition Tokenize :: "string \<Rightarrow> char \<Rightarrow> string list" where
  "Tokenize str sep = Split str sep"

text \<open>
  The separator is \<^verbatim>\<open>';'\<close> when the file is compiled with \<^verbatim>\<open>_WIN32\<close> defined and
  \<^verbatim>\<open>':'\<close> otherwise.
\<close>

definition sSeparator :: "bool \<Rightarrow> char" where
  "sSeparator windows = (if windows then CHR '';'' else CHR '':'')"

text \<open>
  The loop over the tokens: it stops at the first token that does not parse, with what
  was inserted into \<^verbatim>\<open>out_split\<close> so far left there.
\<close>

fun ParseSplitConfigs ::
  "(string \<Rightarrow> 'c option) \<Rightarrow> string \<Rightarrow> string list \<Rightarrow> IDiagnostics \<Rightarrow> 'c SplitConstraints
   \<Rightarrow> bool \<times> IDiagnostics \<times> 'c SplitConstraints"
where
  "ParseSplitConfigs parse arg [] diag out_split = (True, diag, out_split)"
| "ParseSplitConfigs parse arg (config_str # rest) diag out_split =
     (case parse config_str of
        None \<Rightarrow>
          (False,
           Emit Error diag NoSource
             (''invalid config '' @ [CHR 0x27] @ config_str @ [CHR 0x27] @
              '' in split parameter '' @ [CHR 0x27] @ arg @ [CHR 0x27]),
           out_split)
      | Some config \<Rightarrow>
          ParseSplitConfigs parse arg rest diag
            (out_split\<lparr>configs := finsert config (configs out_split)\<rparr>))"

text \<open>
  \<^verbatim>\<open>ParseSplitParameter\<close> returns \<^verbatim>\<open>bool\<close> and writes \<^verbatim>\<open>*out_path\<close> and \<^verbatim>\<open>*out_split\<close>:
  the model takes the two as they are at the call and returns them as they are at the
  return, after the result and the log.
\<close>

definition ParseSplitParameter ::
  "bool \<Rightarrow> (string \<Rightarrow> 'c option) \<Rightarrow> string \<Rightarrow> IDiagnostics \<Rightarrow> string \<Rightarrow> 'c SplitConstraints
   \<Rightarrow> bool \<times> IDiagnostics \<times> string \<times> 'c SplitConstraints"
where
  "ParseSplitParameter windows parse arg diag out_path out_split =
     (let parts = Split arg (sSeparator windows) in
      if length parts \<noteq> 2
      then
        (False,
         Emit Note
           (Emit Error diag NoSource
              (''invalid split parameter '' @ [CHR 0x27] @ arg @ [CHR 0x27]))
           NoSource
           (''should be --split path/to/output.apk'' @ [sSeparator windows] @
            ''<config>[,<config>...].''),
         out_path, out_split)
      else
        (case ParseSplitConfigs parse arg (Tokenize (parts ! 1) CHR '','') diag out_split of
           (ok, diag', out_split') \<Rightarrow> (ok, diag', parts ! 0, out_split')))"

subsection \<open>AdjustSplitConstraintsForMinSdk\<close>

text \<open>
  \<^verbatim>\<open>config.sdkVersion <= min_sdk\<close> compares an unsigned 16-bit value with an \<^verbatim>\<open>int\<close>:
  the value is promoted to \<^verbatim>\<open>int\<close> and the comparison is signed.
\<close>

definition AdjustConfig :: "int32_t \<Rightarrow> 'r ConfigDescription \<Rightarrow> 'r ConfigDescription" where
  "AdjustConfig min_sdk config =
     (if uint (sdkVersion config) \<le> sint min_sdk then CopyWithoutSdkVersion config
      else config)"

text \<open>
  The inner loop visits every element of the input set once and inserts its adjusted
  copy into a fresh set: the fresh set ends as the image of the input set. The outer
  loop pushes one fresh \<^verbatim>\<open>SplitConstraints\<close> for each input one, in order.
\<close>

definition AdjustSplitConstraintsForMinSdk ::
  "int32_t \<Rightarrow> 'r ConfigDescription SplitConstraints list
   \<Rightarrow> 'r ConfigDescription SplitConstraints list"
where
  "AdjustSplitConstraintsForMinSdk min_sdk split_constraints =
     map (\<lambda>constraints. \<lparr>configs = AdjustConfig min_sdk |`| configs constraints\<rparr>)
       split_constraints"

subsection \<open>GenerateSplitManifest\<close>

text \<open>\<^verbatim>\<open>std::to_string\<close> of an unsigned value: its decimal digits.\<close>

definition digit :: "nat \<Rightarrow> char" where
  "digit d = char_of (48 + d)"

fun to_string :: "nat \<Rightarrow> string" where
  "to_string n = (if n < 10 then [digit n] else to_string (n div 10) @ [digit (n mod 10)])"

declare to_string.simps [simp del]

text \<open>
  Modelled from the spec: \<^verbatim>\<open>util::Joiner\<close> is defined outside this file; it writes the
  elements of a container "joined by" the separator.
\<close>

fun Joiner :: "string list \<Rightarrow> string \<Rightarrow> string" where
  "Joiner [] sep = []"
| "Joiner [x] sep = x"
| "Joiner (x # y # ys) sep = x @ sep @ Joiner (y # ys) sep"

definition CreateAttributeWithId :: "uint32_t \<Rightarrow> uint32_t" where
  "CreateAttributeWithId resid = resid"

text \<open>
  A \<^verbatim>\<open>std::set\<close> is iterated in the order of its elements, which is
  \<open>sorted_list_of_fset\<close> for the order of the element type; how an element is printed
  is the parameter \<open>show_config\<close>.
\<close>

definition GenerateSplitManifest ::
  "Externals \<Rightarrow> ('c::linorder \<Rightarrow> string) \<Rightarrow> AppInfo \<Rightarrow> 'c SplitConstraints \<Rightarrow> XmlResource"
where
  "GenerateSplitManifest ext show_config app_info constraints =
     (let kVersionCode = 0x0101021b;
          kRevisionCode = 0x010104d5;
          kHasCode = 0x0101000c;
          attrs0 = [\<lparr>namespace_uri = [], name = ''package'', value = package app_info,
                     compiled_attribute = None, compiled_value = None\<rparr>];
          attrs1 =
            (case version_code app_info of
               Some vcode \<Rightarrow>
                 attrs0 @
                 [\<lparr>namespace_uri = kSchemaAndroid ext, name = ''versionCode'',
                   value = to_string (unat vcode),
                   compiled_attribute = Some (CreateAttributeWithId kVersionCode),
                   compiled_value = Some (BinaryPrimitive
                     \<lparr>dataType = TYPE_INT_DEC ext, data = vcode\<rparr>)\<rparr>]
             | None \<Rightarrow> attrs0);
          attrs2 =
            (case revision_code app_info of
               Some rcode \<Rightarrow>
                 attrs1 @
                 [\<lparr>namespace_uri = kSchemaAndroid ext, name = ''revisionCode'',
                   value = to_string (unat rcode),
                   compiled_attribute = Some (CreateAttributeWithId kRevisionCode),
                   compiled_value = Some (BinaryPrimitive
                     \<lparr>dataType = TYPE_INT_DEC ext, data = rcode\<rparr>)\<rparr>]
             | None \<Rightarrow> attrs1);
          split_name_str =
            (case split_name app_info of Some n \<Rightarrow> n @ ''.'' | None \<Rightarrow> []) @
            ''config.'' @
            Joiner (map show_config (sorted_list_of_fset (configs constraints))) ''_'';
          attrs3 =
            attrs2 @
            [\<lparr>namespace_uri = [], name = ''split'', value = split_name_str,
              compiled_attribute = None, compiled_value = None\<rparr>];
          attrs4 =
            (case split_name app_info of
               Some n \<Rightarrow>
                 attrs3 @
                 [\<lparr>namespace_uri = [], name = ''configForSplit'', value = n,
                   compiled_attribute = None, compiled_value = None\<rparr>]
             | None \<Rightarrow> attrs3);
          application_el =
            Element [] ''application''
              [\<lparr>namespace_uri = kSchemaAndroid ext, name = ''hasCode'', value = ''false'',
                compiled_attribute = Some (CreateAttributeWithId kHasCode),
                compiled_value = Some (BinaryPrimitive
                  \<lparr>dataType = TYPE_INT_BOOLEAN ext, data = 0\<rparr>)\<rparr>]
              0 [];
          manifest_el = AppendChild (Element [] ''manifest'' attrs4 0 []) application_el;
          namespace_android =
            AppendChild (Namespace ''android'' (kSchemaAndroid ext) 0 []) manifest_el
      in \<lparr>file = \<lparr>source = NoSource\<rparr>, root = Some namespace_android\<rparr>)"

subsection \<open>Sample parameters\<close>

text \<open>
  Values for the parameters of the model, used to run it on concrete inputs. The schema
  URI and the type tags are Android's. The two text parsers read unsigned decimal
  numerals only. The configuration parser knows a few qualifiers; like the real one it
  adds SDK version 4 to a density qualifier. The other axes are one string, the locale,
  and the difference mask has one bit each for the locale, the density and the version.
\<close>

definition is_digit :: "char \<Rightarrow> bool" where
  "is_digit c = (48 \<le> (of_char c :: nat) \<and> (of_char c :: nat) \<le> 57)"

definition sample_ParseInt :: "string \<Rightarrow> 32 word option" where
  "sample_ParseInt s =
     (if s \<noteq> [] \<and> list_all is_digit s
      then Some (word_of_nat (foldl (\<lambda>n c. 10 * n + (of_char c - 48)) 0 s))
      else None)"

definition sample_externals :: Externals where
  "sample_externals =
     \<lparr>kSchemaAndroid = ''http://schemas.android.com/apk/res/android'',
      TYPE_FIRST_INT = 0x10, TYPE_LAST_INT = 0x1f,
      TYPE_INT_DEC = 0x10, TYPE_INT_BOOLEAN = 0x12,
      ParseInt = sample_ParseInt, ParseSdkVersion = sample_ParseInt\<rparr>"

definition sample_Parse :: "string \<Rightarrow> string ConfigDescription option" where
  "sample_Parse s =
     (if s = ''hdpi'' then Some \<lparr>density = 240, sdkVersion = 4, axes = []\<rparr>
      else if s = ''en-hdpi'' then Some \<lparr>density = 240, sdkVersion = 4, axes = ''en''\<rparr>
      else if s = ''en'' then Some \<lparr>density = 0, sdkVersion = 0, axes = ''en''\<rparr>
      else if s = ''fr'' then Some \<lparr>density = 0, sdkVersion = 0, axes = ''fr''\<rparr>
      else if s = ''v18'' then Some \<lparr>density = 0, sdkVersion = 18, axes = []\<rparr>
      else if s = ''v23'' then Some \<lparr>density = 0, sdkVersion = 23, axes = []\<rparr>
      else None)"

definition sample_diff ::
  "string ConfigDescription \<Rightarrow> string ConfigDescription \<Rightarrow> int32_t" where
  "sample_diff a b =
     (if axes a \<noteq> axes b then 0x0004 else 0) +
     (if density a \<noteq> density b then 0x0100 else 0) +
     (if sdkVersion a \<noteq> sdkVersion b then 0x0400 else 0)"

definition sample_config_externals :: "string ConfigExternals" where
  "sample_config_externals =
     \<lparr>Parse = sample_Parse, diff = sample_diff,
      DefaultConfig = \<lparr>density = 0, sdkVersion = 0, axes = []\<rparr>,
      CONFIG_DENSITY = 0x0100\<rparr>"

text \<open>A manifest document whose root element, on line 7, has no attribute at all.\<close>

definition sample_manifest_without_package :: XmlResource where
  "sample_manifest_without_package =
     \<lparr>file = \<lparr>source = \<lparr>path = ''AndroidManifest.xml'', line = None\<rparr>\<rparr>,
      root = Some (Element [] ''manifest'' [] 7 [])\<rparr>"

text \<open>A manifest document whose root element has the package attribute only.\<close>

definition sample_minimal_manifest :: XmlResource where
  "sample_minimal_manifest =
     \<lparr>file = \<lparr>source = \<lparr>path = ''AndroidManifest.xml'', line = None\<rparr>\<rparr>,
      root = Some (Namespace ''android'' ''http://schemas.android.com/apk/res/android'' 1
        [Element [] ''manifest''
           [\<lparr>namespace_uri = [], name = ''package'', value = ''com.example'',
             compiled_attribute = None, compiled_value = None\<rparr>] 2 []])\<rparr>"

section \<open>Properties\<close>

subsection \<open>The extractors\<close>

lemma ExtractCompiledString_compiled:
  "compiled_value attr = Some v \<Longrightarrow>
   ExtractCompiledString attr =
     (case v of
        String s \<Rightarrow> if s = [] then Inl ''compiled value is an empty string'' else Inr s
      | _ \<Rightarrow> Inl ''compiled value is not a string'')"
  by (cases v) (simp_all add: ExtractCompiledString_def)

lemma ExtractCompiledString_text:
  "compiled_value attr = None \<Longrightarrow>
   ExtractCompiledString attr =
     (if value attr = [] then Inl ''value is an empty string'' else Inr (value attr))"
  by (simp add: ExtractCompiledString_def)

lemma ExtractCompiledInt_compiled:
  "compiled_value attr = Some v \<Longrightarrow>
   ExtractCompiledInt ext attr =
     (case v of
        BinaryPrimitive p \<Rightarrow>
          if TYPE_FIRST_INT ext \<le> dataType p \<and> dataType p \<le> TYPE_LAST_INT ext
          then Inr (data p) else Inl ''compiled value is not an integer''
      | _ \<Rightarrow> Inl ''compiled value is not an integer'')"
  by (cases v) (simp_all add: ExtractCompiledInt_def)

lemma ExtractCompiledInt_text:
  "compiled_value attr = None \<Longrightarrow>
   ExtractCompiledInt ext attr =
     (case ParseInt ext (value attr) of
        Some n \<Rightarrow> Inr n
      | None \<Rightarrow> Inl ([CHR 0x27] @ value attr @ [CHR 0x27] @ '' is not a valid integer''))"
  by (simp add: ExtractCompiledInt_def)

lemma ExtractSdkVersion_compiled:
  "compiled_value attr = Some v \<Longrightarrow>
   ExtractSdkVersion ext attr =
     (case v of
        BinaryPrimitive p \<Rightarrow>
          if TYPE_FIRST_INT ext \<le> dataType p \<and> dataType p \<le> TYPE_LAST_INT ext
          then Inr (data p) else Inl ''compiled value is not an integer or string''
      | String s \<Rightarrow>
          (case ParseSdkVersion ext s of
             Some n \<Rightarrow> Inr n
           | None \<Rightarrow> Inl ''compiled string value is not a valid SDK version'')
      | OtherItem \<Rightarrow> Inl ''compiled value is not an integer or string'')"
  by (cases v) (simp_all add: ExtractSdkVersion_def)

lemma ExtractSdkVersion_text:
  "compiled_value attr = None \<Longrightarrow>
   ExtractSdkVersion ext attr =
     (case ParseSdkVersion ext (value attr) of
        Some n \<Rightarrow> Inr n
      | None \<Rightarrow> Inl ([CHR 0x27] @ value attr @ [CHR 0x27] @ '' is not a valid SDK version''))"
  by (simp add: ExtractSdkVersion_def)

lemma extractors_ignore_text:
  "compiled_value attr = Some v \<Longrightarrow>
   ExtractCompiledString (attr\<lparr>value := t\<rparr>) = ExtractCompiledString attr \<and>
   ExtractCompiledInt ext (attr\<lparr>value := t\<rparr>) = ExtractCompiledInt ext attr \<and>
   ExtractSdkVersion ext (attr\<lparr>value := t\<rparr>) = ExtractSdkVersion ext attr"
  by (simp add: ExtractCompiledString_def ExtractCompiledInt_def ExtractSdkVersion_def)

text \<open>
  Claim C1. Each of the three extractors decides on the compiled value whenever one is
  present, and its result is then the same whatever the text is. A compiled value of
  the wrong kind fails with the type-mismatch message of the extractor (\<open>is not a
  string\<close>, \<open>is not an integer\<close>, \<open>is not an integer or string\<close>); a compiled
  string that is empty fails in the string extractor with \<open>compiled value is an empty
  string\<close>. Only without a compiled value is the text read: the string extractor
  fails on the empty text with \<open>value is an empty string\<close>, the integer extractor
  fails when the text does not parse with \<open>'<text>' is not a valid integer\<close>, and the
  SDK-version extractor with \<open>'<text>' is not a valid SDK version\<close>.
\<close>

theorem extractors_compiled_first_text_fallback:
  "(\<forall>v t. compiled_value attr = Some v \<longrightarrow>
      ExtractCompiledString (attr\<lparr>value := t\<rparr>) = ExtractCompiledString attr \<and>
      ExtractCompiledInt ext (attr\<lparr>value := t\<rparr>) = ExtractCompiledInt ext attr \<and>
      ExtractSdkVersion ext (attr\<lparr>value := t\<rparr>) = ExtractSdkVersion ext attr) \<and>
   (\<forall>s. compiled_value attr = Some (String s) \<longrightarrow>
      ExtractCompiledString attr =
        (if s = [] then Inl ''compiled value is an empty string'' else Inr s) \<and>
      ExtractCompiledInt ext attr = Inl ''compiled value is not an integer'' \<and>
      ExtractSdkVersion ext attr =
        (case ParseSdkVersion ext s of
           Some n \<Rightarrow> Inr n
         | None \<Rightarrow> Inl ''compiled string value is not a valid SDK version'')) \<and>
   (\<forall>p. compiled_value attr = Some (BinaryPrimitive p) \<longrightarrow>
      ExtractCompiledString attr = Inl ''compiled value is not a string'' \<and>
      ExtractCompiledInt ext attr =
        (if TYPE_FIRST_INT ext \<le> dataType p \<and> dataType p \<le> TYPE_LAST_INT ext
         then Inr (data p) else Inl ''compiled value is not an integer'') \<and>
      ExtractSdkVersion ext attr =
        (if TYPE_FIRST_INT ext \<le> dataType p \<and> dataType p \<le> TYPE_LAST_INT ext
         then Inr (data p) else Inl ''compiled value is not an integer or string'')) \<and>
   (compiled_value attr = Some OtherItem \<longrightarrow>
      ExtractCompiledString attr = Inl ''compiled value is not a string'' \<and>
      ExtractCompiledInt ext attr = Inl ''compiled value is not an integer'' \<and>
      ExtractSdkVersion ext attr = Inl ''compiled value is not an integer or string'') \<and>
   (compiled_value attr = None \<longrightarrow>
      ExtractCompiledString attr =
        (if value attr = [] then Inl ''value is an empty string'' else Inr (value attr)) \<and>
      ExtractCompiledInt ext attr =
        (case ParseInt ext (value attr) of
           Some n \<Rightarrow> Inr n
         | None \<Rightarrow> Inl ([CHR 0x27] @ value attr @ [CHR 0x27] @ '' is not a valid integer'')) \<and>
      ExtractSdkVersion ext attr =
        (case ParseSdkVersion ext (value attr) of
           Some n \<Rightarrow> Inr n
         | None \<Rightarrow>
             Inl ([CHR 0x27] @ value attr @ [CHR 0x27] @ '' is not a valid SDK version'')))"
proof (intro conjI allI impI)
  fix v t assume c: "compiled_value attr = Some v"
  from extractors_ignore_text [OF c, of t ext]
  show "ExtractCompiledString (attr\<lparr>value := t\<rparr>) = ExtractCompiledString attr"
    and "ExtractCompiledInt ext (attr\<lparr>value := t\<rparr>) = ExtractCompiledInt ext attr"
    and "ExtractSdkVersion ext (attr\<lparr>value := t\<rparr>) = ExtractSdkVersion ext attr"
    by simp_all
next
  fix s assume c: "compiled_value attr = Some (String s)"
  show "ExtractCompiledString attr =
        (if s = [] then Inl ''compiled value is an empty string'' else Inr s)"
    by (simp add: ExtractCompiledString_compiled [OF c])
  show "ExtractCompiledInt ext attr = Inl ''compiled value is not an integer''"
    by (simp add: ExtractCompiledInt_compiled [OF c])
  show "ExtractSdkVersion ext attr =
        (case ParseSdkVersion ext s of
           Some n \<Rightarrow> Inr n
         | None \<Rightarrow> Inl ''compiled string value is not a valid SDK version'')"
    by (simp add: ExtractSdkVersion_compiled [OF c])
next
  fix p assume c: "compiled_value attr = Some (BinaryPrimitive p)"
  show "ExtractCompiledString attr = Inl ''compiled value is not a string''"
    by (simp add: ExtractCompiledString_compiled [OF c])
  show "ExtractCompiledInt ext attr =
        (if TYPE_FIRST_INT ext \<le> dataType p \<and> dataType p \<le> TYPE_LAST_INT ext
         then Inr (data p) else Inl ''compiled value is not an integer'')"
    by (simp add: ExtractCompiledInt_compiled [OF c])
  show "ExtractSdkVersion ext attr =
        (if TYPE_FIRST_INT ext \<le> dataType p \<and> dataType p \<le> TYPE_LAST_INT ext
         then Inr (data p) else Inl ''compiled value is not an integer or string'')"
    by (simp add: ExtractSdkVersion_compiled [OF c])
next
  assume c: "compiled_value attr = Some OtherItem"
  show "ExtractCompiledString attr = Inl ''compiled value is not a string''"
    by (simp add: ExtractCompiledString_compiled [OF c])
  show "ExtractCompiledInt ext attr = Inl ''compiled value is not an integer''"
    by (simp add: ExtractCompiledInt_compiled [OF c])
  show "ExtractSdkVersion ext attr = Inl ''compiled value is not an integer or string''"
    by (simp add: ExtractSdkVersion_compiled [OF c])
next
  assume c: "compiled_value attr = None"
  show "ExtractCompiledString attr =
        (if value attr = [] then Inl ''value is an empty string'' else Inr (value attr))"
    by (rule ExtractCompiledString_text [OF c])
  show "ExtractCompiledInt ext attr =
        (case ParseInt ext (value attr) of
           Some n \<Rightarrow> Inr n
         | None \<Rightarrow> Inl ([CHR 0x27] @ value attr @ [CHR 0x27] @ '' is not a valid integer''))"
    by (rule ExtractCompiledInt_text [OF c])
  show "ExtractSdkVersion ext attr =
        (case ParseSdkVersion ext (value attr) of
           Some n \<Rightarrow> Inr n
         | None \<Rightarrow>
             Inl ([CHR 0x27] @ value attr @ [CHR 0x27] @ '' is not a valid SDK version''))"
    by (rule ExtractSdkVersion_text [OF c])
qed


theorem extractors_compiled_first_text_fallback_witness:
  "ExtractCompiledString
     \<lparr>namespace_uri = [], name = ''package'', value = ''com.text'',
      compiled_attribute = None, compiled_value = Some (String [])\<rparr>
     = Inl ''compiled value is an empty string'' \<and>
   ExtractCompiledInt sample_externals
     \<lparr>namespace_uri = [], name = ''versionCode'', value = ''7'',
      compiled_attribute = None, compiled_value = Some (String ''7'')\<rparr>
     = Inl ''compiled value is not an integer'' \<and>
   ExtractSdkVersion sample_externals
     \<lparr>namespace_uri = [], name = ''minSdkVersion'', value = ''21'',
      compiled_attribute = None,
      compiled_value = Some (BinaryPrimitive \<lparr>dataType = 0x10, data = 26\<rparr>)\<rparr>
     = Inr 26 \<and>
   ExtractSdkVersion sample_externals
     \<lparr>namespace_uri = [], name = ''minSdkVersion'', value = ''21'',
      compiled_attribute = None,
      compiled_value = Some (BinaryPrimitive \<lparr>dataType = 0x03, data = 26\<rparr>)\<rparr>
     = Inl ''compiled value is not an integer or string'' \<and>
   ExtractCompiledString
     \<lparr>namespace_uri = [], name = ''package'', value = [],
      compiled_attribute = None, compiled_value = None\<rparr>
     = Inl ''value is an empty string'' \<and>
   ExtractCompiledInt sample_externals
     \<lparr>namespace_uri = [], name = ''versionCode'', value = ''abc'',
      compiled_attribute = None, compiled_value = None\<rparr>
     = Inl (CHR 0x27 # ''abc'' @ CHR 0x27 # '' is not a valid integer'') \<and>
   ExtractCompiledInt sample_externals
     \<lparr>namespace_uri = [], name = ''versionCode'', value = ''12'',
      compiled_attribute = None, compiled_value = None\<rparr>
     = Inr 12"
  using
    extractors_compiled_first_text_fallback
      [of "\<lparr>namespace_uri = [], name = ''package'', value = ''com.text'',
            compiled_attribute = None, compiled_value = Some (String [])\<rparr>" sample_externals]
    extractors_compiled_first_text_fallback
      [of "\<lparr>namespace_uri = [], name = ''versionCode'', value = ''7'',
            compiled_attribute = None, compiled_value = Some (String ''7'')\<rparr>" sample_externals]
    extractors_compiled_first_text_fallback
      [of "\<lparr>namespace_uri = [], name = ''minSdkVersion'', value = ''21'',
            compiled_attribute = None,
            compiled_value = Some (BinaryPrimitive \<lparr>dataType = 0x10, data = 26\<rparr>)\<rparr>"
          sample_externals]
    extractors_compiled_first_text_fallback
      [of "\<lparr>namespace_uri = [], name = ''minSdkVersion'', value = ''21'',
            compiled_attribute = None,
            compiled_value = Some (BinaryPrimitive \<lparr>dataType = 0x03, data = 26\<rparr>)\<rparr>"
          sample_externals]
    extractors_compiled_first_text_fallback
      [of "\<lparr>namespace_uri = [], name = ''package'', value = [],
            compiled_attribute = None, compiled_value = None\<rparr>" sample_externals]
    extractors_compiled_first_text_fallback
      [of "\<lparr>namespace_uri = [], name = ''versionCode'', value = ''abc'',
            compiled_attribute = None, compiled_value = None\<rparr>" sample_externals]
    extractors_compiled_first_text_fallback
      [of "\<lparr>namespace_uri = [], name = ''versionCode'', value = ''12'',
            compiled_attribute = None, compiled_value = None\<rparr>" sample_externals]
  by (simp add: sample_externals_def sample_ParseInt_def is_digit_def)

subsection \<open>The preferred density\<close>

text \<open>
  Claim C6. When the argument does not parse, \<^verbatim>\<open>ParseTargetDensityParameter\<close> returns
  nothing and reports \<open>invalid density '<arg>' for --preferred-density option\<close>. When it
  parses and the parsed descriptor with its SDK version cleared differs from the default
  descriptor in anything other than exactly the density, it returns nothing and reports
  \<open>invalid preferred density '<arg>'. Preferred density must only be a density value\<close>.
  When the difference is exactly the density, it returns the density of the parsed
  descriptor and reports nothing.
\<close>

theorem ParseTargetDensityParameter_cases:
  "(Parse cfg arg = None \<longrightarrow>
      ParseTargetDensityParameter cfg arg diag =
        (None,
         diag @ [\<lparr>level = Error, location = NoSource,
                  message = ''invalid density '' @ [CHR 0x27] @ arg @ [CHR 0x27] @
                            '' for --preferred-density option''\<rparr>])) \<and>
   (\<forall>config. Parse cfg arg = Some config \<and>
      diff cfg (config\<lparr>sdkVersion := 0\<rparr>) (DefaultConfig cfg) \<noteq> CONFIG_DENSITY cfg \<longrightarrow>
      ParseTargetDensityParameter cfg arg diag =
        (None,
         diag @ [\<lparr>level = Error, location = NoSource,
                  message = ''invalid preferred density '' @ [CHR 0x27] @ arg @ [CHR 0x27] @
                            ''. Preferred density must only be a density value''\<rparr>])) \<and>
   (\<forall>config. Parse cfg arg = Some config \<and>
      diff cfg (config\<lparr>sdkVersion := 0\<rparr>) (DefaultConfig cfg) = CONFIG_DENSITY cfg \<longrightarrow>
      ParseTargetDensityParameter cfg arg diag = (Some (density config), diag))"
  by (simp add: ParseTargetDensityParameter_def Emit_def Let_def)

theorem ParseTargetDensityParameter_cases_witness:
  "ParseTargetDensityParameter sample_config_externals ''hdpi'' [] = (Some 240, []) \<and>
   ParseTargetDensityParameter sample_config_externals ''en-hdpi'' [] =
     (None,
      [\<lparr>level = Error, location = NoSource,
        message = ''invalid preferred density '' @ [CHR 0x27] @ ''en-hdpi'' @ [CHR 0x27] @
                  ''. Preferred density must only be a density value''\<rparr>]) \<and>
   ParseTargetDensityParameter sample_config_externals ''320'' [] =
     (None,
      [\<lparr>level = Error, location = NoSource,
        message = ''invalid density '' @ [CHR 0x27] @ ''320'' @ [CHR 0x27] @
                  '' for --preferred-density option''\<rparr>])"
  using
    ParseTargetDensityParameter_cases [of sample_config_externals "''hdpi''" "[]"]
    ParseTargetDensityParameter_cases [of sample_config_externals "''en-hdpi''" "[]"]
    ParseTargetDensityParameter_cases [of sample_config_externals "''320''" "[]"]
  by (simp add: sample_config_externals_def sample_Parse_def sample_diff_def)

subsection \<open>Split parameters\<close>

lemma ParseSplitConfigs_prefix:
  "map parse pre = map Some cs \<Longrightarrow>
   ParseSplitConfigs parse arg (pre @ rest) diag out_split =
   ParseSplitConfigs parse arg rest diag
     (out_split\<lparr>configs := fset_of_list cs |\<union>| configs out_split\<rparr>)"
proof (induction pre arbitrary: cs out_split)
  case Nil
  then show ?case by simp
next
  case (Cons t pre)
  then obtain c cs' where cs: "cs = c # cs'" and t: "parse t = Some c"
    and pre: "map parse pre = map Some cs'"
    by (cases cs) auto
  have u: "fset_of_list cs' |\<union>| finsert c (configs out_split) =
           fset_of_list cs |\<union>| configs out_split"
    by (simp add: cs)
  show ?case
    using Cons.IH [OF pre, of "out_split\<lparr>configs := finsert c (configs out_split)\<rparr>"] t u
    by simp
qed

lemma ParseSplitConfigs_all:
  "map parse toks = map Some cs \<Longrightarrow>
   ParseSplitConfigs parse arg toks diag out_split =
     (True, diag, out_split\<lparr>configs := fset_of_list cs |\<union>| configs out_split\<rparr>)"
  using ParseSplitConfigs_prefix [of parse toks cs arg "[]" diag out_split] by simp

lemma ParseSplitConfigs_stop:
  "map parse pre = map Some cs \<Longrightarrow> parse t = None \<Longrightarrow>
   ParseSplitConfigs parse arg (pre @ t # post) diag out_split =
     (False,
      diag @ [\<lparr>level = Error, location = NoSource,
               message = ''invalid config '' @ [CHR 0x27] @ t @ [CHR 0x27] @
                         '' in split parameter '' @ [CHR 0x27] @ arg @ [CHR 0x27]\<rparr>],
      out_split\<lparr>configs := fset_of_list cs |\<union>| configs out_split\<rparr>)"
  using ParseSplitConfigs_prefix [of parse pre cs arg "t # post" diag out_split]
  by (simp add: Emit_def)

lemma ParseSplitParameter_wrong_count:
  "length (Split arg (sSeparator windows)) \<noteq> 2 \<Longrightarrow>
   ParseSplitParameter windows parse arg diag out_path out_split =
     (False,
      diag @ [\<lparr>level = Error, location = NoSource,
               message = ''invalid split parameter '' @ [CHR 0x27] @ arg @ [CHR 0x27]\<rparr>,
              \<lparr>level = Note, location = NoSource,
               message = ''should be --split path/to/output.apk'' @ [sSeparator windows] @
                         ''<config>[,<config>...].''\<rparr>],
      out_path, out_split)"
  by (simp add: ParseSplitParameter_def Emit_def Let_def)

lemma ParseSplitParameter_two_parts:
  "Split arg (sSeparator windows) = [p, rest] \<Longrightarrow>
   ParseSplitParameter windows parse arg diag out_path out_split =
     (case ParseSplitConfigs parse arg (Tokenize rest CHR '','') diag out_split of
        (ok, diag', out_split') \<Rightarrow> (ok, diag', p, out_split'))"
  by (simp add: ParseSplitParameter_def Let_def)

lemma Split_bad: "Split ''bad'' (sSeparator windows) = [''bad'']"
  by (simp add: sSeparator_def)

lemma Split_out_apk_en_fr: "Split ''out.apk:en,fr'' (sSeparator False) = [''out.apk'', ''en,fr'']"
  by (simp add: sSeparator_def)

lemma Split_out_apk_en_en: "Split ''out.apk:en,en'' (sSeparator False) = [''out.apk'', ''en,en'']"
  by (simp add: sSeparator_def)

lemma Tokenize_en_fr: "Tokenize ''en,fr'' CHR '','' = [''en'', ''fr'']"
  by (simp add: Tokenize_def)

lemma Tokenize_en_en: "Tokenize ''en,en'' CHR '','' = [''en'', ''en'']"
  by (simp add: Tokenize_def)

text \<open>
  Claim C7. When the argument does not split into exactly two parts at the separator,
  \<^verbatim>\<open>ParseSplitParameter\<close> returns false, reports the error \<open>invalid split parameter
  '<arg>'\<close> followed by the usage note, and leaves both out-parameters as they were; the
  argument \<open>bad\<close> fails. For \<open>out.apk:en,fr\<close> (separator \<open>:\<close>) and an empty
  \<^verbatim>\<open>out_split\<close> at the call, it returns true with the path \<open>out.apk\<close> and exactly the two
  descriptors parsed from \<open>en\<close> and \<open>fr\<close>; a token given twice is in the set once. In
  general, when every token parses, the parsed descriptors are added to what
  \<^verbatim>\<open>out_split\<close> held at the call. When a token does not parse, it returns false and
  reports \<open>invalid config '<token>' in split parameter '<arg>'\<close> for the first such
  token.
\<close>

theorem ParseSplitParameter_result:
  "(length (Split arg (sSeparator windows)) \<noteq> 2 \<longrightarrow>
      ParseSplitParameter windows parse arg diag out_path out_split =
        (False,
         diag @ [\<lparr>level = Error, location = NoSource,
                  message = ''invalid split parameter '' @ [CHR 0x27] @ arg @ [CHR 0x27]\<rparr>,
                 \<lparr>level = Note, location = NoSource,
                  message = ''should be --split path/to/output.apk'' @ [sSeparator windows] @
                            ''<config>[,<config>...].''\<rparr>],
         out_path, out_split)) \<and>
   fst (ParseSplitParameter windows parse ''bad'' diag out_path out_split) = False \<and>
   (\<forall>en fr. parse ''en'' = Some en \<and> parse ''fr'' = Some fr \<longrightarrow>
      ParseSplitParameter False parse ''out.apk:en,fr'' diag out_path \<lparr>configs = {||}\<rparr> =
        (True, diag, ''out.apk'', \<lparr>configs = {|en, fr|}\<rparr>)) \<and>
   (\<forall>en. parse ''en'' = Some en \<longrightarrow>
      ParseSplitParameter False parse ''out.apk:en,en'' diag out_path \<lparr>configs = {||}\<rparr> =
        (True, diag, ''out.apk'', \<lparr>configs = {|en|}\<rparr>)) \<and>
   (\<forall>p rest cs.
      Split arg (sSeparator windows) = [p, rest] \<and>
      map parse (Tokenize rest CHR '','') = map Some cs \<longrightarrow>
      ParseSplitParameter windows parse arg diag out_path out_split =
        (True, diag, p, out_split\<lparr>configs := fset_of_list cs |\<union>| configs out_split\<rparr>)) \<and>
   (\<forall>p rest pre t post cs.
      Split arg (sSeparator windows) = [p, rest] \<and>
      Tokenize rest CHR '','' = pre @ t # post \<and>
      map parse pre = map Some cs \<and> parse t = None \<longrightarrow>
      fst (ParseSplitParameter windows parse arg diag out_path out_split) = False \<and>
      fst (snd (ParseSplitParameter windows parse arg diag out_path out_split)) =
        diag @ [\<lparr>level = Error, location = NoSource,
                 message = ''invalid config '' @ [CHR 0x27] @ t @ [CHR 0x27] @
                           '' in split parameter '' @ [CHR 0x27] @ arg @ [CHR 0x27]\<rparr>])"
proof (intro conjI allI impI)
  assume "length (Split arg (sSeparator windows)) \<noteq> 2"
  then show "ParseSplitParameter windows parse arg diag out_path out_split =
        (False,
         diag @ [\<lparr>level = Error, location = NoSource,
                  message = ''invalid split parameter '' @ [CHR 0x27] @ arg @ [CHR 0x27]\<rparr>,
                 \<lparr>level = Note, location = NoSource,
                  message = ''should be --split path/to/output.apk'' @ [sSeparator windows] @
                            ''<config>[,<config>...].''\<rparr>],
         out_path, out_split)"
    by (rule ParseSplitParameter_wrong_count)
next
  have "length (Split ''bad'' (sSeparator windows)) \<noteq> 2"
    by (simp only: Split_bad) simp
  from ParseSplitParameter_wrong_count [OF this, of parse diag out_path out_split]
  show "fst (ParseSplitParameter windows parse ''bad'' diag out_path out_split) = False"
    by simp
next
  fix en fr assume h: "parse ''en'' = Some en \<and> parse ''fr'' = Some fr"
  then have m: "map parse [''en'', ''fr''] = map Some [en, fr]" by simp
  show "ParseSplitParameter False parse ''out.apk:en,fr'' diag out_path \<lparr>configs = {||}\<rparr> =
        (True, diag, ''out.apk'', \<lparr>configs = {|en, fr|}\<rparr>)"
    using ParseSplitConfigs_all [OF m, of "''out.apk:en,fr''" diag "\<lparr>configs = {||}\<rparr>"]
    by (simp only: ParseSplitParameter_two_parts [OF Split_out_apk_en_fr] Tokenize_en_fr) simp
next
  fix en assume h: "parse ''en'' = Some en"
  then have m: "map parse [''en'', ''en''] = map Some [en, en]" by simp
  show "ParseSplitParameter False parse ''out.apk:en,en'' diag out_path \<lparr>configs = {||}\<rparr> =
        (True, diag, ''out.apk'', \<lparr>configs = {|en|}\<rparr>)"
    using ParseSplitConfigs_all [OF m, of "''out.apk:en,en''" diag "\<lparr>configs = {||}\<rparr>"]
    by (simp only: ParseSplitParameter_two_parts [OF Split_out_apk_en_en] Tokenize_en_en) simp
next
  fix p rest cs
  assume h: "Split arg (sSeparator windows) = [p, rest] \<and>
      map parse (Tokenize rest CHR '','') = map Some cs"
  then show "ParseSplitParameter windows parse arg diag out_path out_split =
        (True, diag, p, out_split\<lparr>configs := fset_of_list cs |\<union>| configs out_split\<rparr>)"
    by (simp add: ParseSplitParameter_two_parts ParseSplitConfigs_all)
next
  fix p rest pre t post cs
  assume h: "Split arg (sSeparator windows) = [p, rest] \<and>
      Tokenize rest CHR '','' = pre @ t # post \<and>
      map parse pre = map Some cs \<and> parse t = None"
  then have r: "ParseSplitParameter windows parse arg diag out_path out_split =
     (False,
      diag @ [\<lparr>level = Error, location = NoSource,
               message = ''invalid config '' @ [CHR 0x27] @ t @ [CHR 0x27] @
                         '' in split parameter '' @ [CHR 0x27] @ arg @ [CHR 0x27]\<rparr>],
      p, out_split\<lparr>configs := fset_of_list cs |\<union>| configs out_split\<rparr>)"
    by (simp add: ParseSplitParameter_two_parts ParseSplitConfigs_stop)
  show "fst (ParseSplitParameter windows parse arg diag out_path out_split) = False"
    by (simp only: r fst_conv)
  show "fst (snd (ParseSplitParameter windows parse arg diag out_path out_split)) =
        diag @ [\<lparr>level = Error, location = NoSource,
                 message = ''invalid config '' @ [CHR 0x27] @ t @ [CHR 0x27] @
                           '' in split parameter '' @ [CHR 0x27] @ arg @ [CHR 0x27]\<rparr>]"
    by (simp only: r fst_conv snd_conv)
qed

theorem ParseSplitParameter_result_witness:
  "ParseSplitParameter False sample_Parse ''out.apk:en,fr'' [] [] \<lparr>configs = {||}\<rparr> =
     (True, [], ''out.apk'',
      \<lparr>configs = {|\<lparr>density = 0, sdkVersion = 0, axes = ''en''\<rparr>,
                    \<lparr>density = 0, sdkVersion = 0, axes = ''fr''\<rparr>|}\<rparr>) \<and>
   ParseSplitParameter False sample_Parse ''out.apk:en,en'' [] [] \<lparr>configs = {||}\<rparr> =
     (True, [], ''out.apk'', \<lparr>configs = {|\<lparr>density = 0, sdkVersion = 0, axes = ''en''\<rparr>|}\<rparr>) \<and>
   fst (ParseSplitParameter False sample_Parse ''bad'' [] [] \<lparr>configs = {||}\<rparr>) = False"
  using ParseSplitParameter_result [where parse = sample_Parse and windows = False
    and diag = "[]" and out_path = "[]" and out_split = "\<lparr>configs = {||}\<rparr>"
    and arg = "''bad''"]
  by (simp add: sample_Parse_def)

text \<open>
  Claim C10. When \<^verbatim>\<open>ParseSplitParameter\<close> fails at a token that does not parse, the
  out-parameters have been written all the same: \<^verbatim>\<open>out_path\<close> is the path part of the
  argument, and \<^verbatim>\<open>out_split\<close> has gained the descriptors of the tokens before the
  offending one, and no other.
\<close>

theorem ParseSplitParameter_not_atomic:
  "Split arg (sSeparator windows) = [p, rest] \<Longrightarrow>
   Tokenize rest CHR '','' = pre @ t # post \<Longrightarrow>
   map parse pre = map Some cs \<Longrightarrow> parse t = None \<Longrightarrow>
   ParseSplitParameter windows parse arg diag out_path out_split =
     (False,
      diag @ [\<lparr>level = Error, location = NoSource,
               message = ''invalid config '' @ [CHR 0x27] @ t @ [CHR 0x27] @
                         '' in split parameter '' @ [CHR 0x27] @ arg @ [CHR 0x27]\<rparr>],
      p, out_split\<lparr>configs := fset_of_list cs |\<union>| configs out_split\<rparr>)"
  by (simp add: ParseSplitParameter_two_parts ParseSplitConfigs_stop)

theorem ParseSplitParameter_not_atomic_witness:
  "ParseSplitParameter False sample_Parse ''out.apk:en,zz,fr'' [] ''old'' \<lparr>configs = {||}\<rparr> =
     (False,
      [\<lparr>level = Error, location = NoSource,
        message = ''invalid config '' @ [CHR 0x27] @ ''zz'' @ [CHR 0x27] @
                  '' in split parameter '' @ [CHR 0x27] @ ''out.apk:en,zz,fr'' @ [CHR 0x27]\<rparr>],
      ''out.apk'',
      \<lparr>configs = {|\<lparr>density = 0, sdkVersion = 0, axes = ''en''\<rparr>|}\<rparr>)"
  using ParseSplitParameter_not_atomic [where parse = sample_Parse and windows = False
    and arg = "''out.apk:en,zz,fr''" and p = "''out.apk''" and rest = "''en,zz,fr''"
    and pre = "[''en'']" and t = "''zz''" and post = "[''fr'']"
    and cs = "[\<lparr>density = 0, sdkVersion = 0, axes = ''en''\<rparr>]"
    and diag = "[]" and out_path = "''old''" and out_split = "\<lparr>configs = {||}\<rparr>"]
  by (simp add: sample_Parse_def sSeparator_def Tokenize_def)

subsection \<open>Adjusting split constraints\<close>

lemma AdjustConfig_idem: "AdjustConfig min_sdk (AdjustConfig min_sdk config) = AdjustConfig min_sdk config"
proof (cases "uint (sdkVersion config) \<le> sint min_sdk")
  case True
  have "0 \<le> uint (sdkVersion config)" by simp
  with True have "(0::int) \<le> sint min_sdk" by linarith
  with True show ?thesis
    by (simp add: AdjustConfig_def CopyWithoutSdkVersion_def)
next
  case False
  then show ?thesis by (simp add: AdjustConfig_def)
qed

lemma AdjustConfig_fun:
  "AdjustConfig min_sdk =
     (\<lambda>config. if uint (sdkVersion config) \<le> sint min_sdk
                then config\<lparr>sdkVersion := 0\<rparr> else config)"
  by (rule ext) (simp add: AdjustConfig_def CopyWithoutSdkVersion_def)

lemma Adjust_length:
  "length (AdjustSplitConstraintsForMinSdk min_sdk cs) = length cs"
  by (simp add: AdjustSplitConstraintsForMinSdk_def)

lemma Adjust_nth:
  "i < length cs \<Longrightarrow>
   configs (AdjustSplitConstraintsForMinSdk min_sdk cs ! i) =
     AdjustConfig min_sdk |`| configs (cs ! i)"
  by (simp add: AdjustSplitConstraintsForMinSdk_def)

text \<open>
  Claim C3. For every minimum SDK and every sequence of split constraints, the result
  has the length of the input, and its \<open>i\<close>-th set is the \<open>i\<close>-th input set with every
  descriptor whose SDK version is at most the minimum replaced by its copy with the SDK
  version cleared, and every other descriptor kept as it is. With the minimum 21, a
  descriptor with SDK version 18 is in the result without its SDK version, and one with
  SDK version 23 is in the result unchanged. The input is a value of the model, as it
  is a \<^verbatim>\<open>const\<close> reference of the source: the function has no way to change it.
\<close>

theorem AdjustSplitConstraintsForMinSdk_strips:
  "length (AdjustSplitConstraintsForMinSdk min_sdk split_constraints) = length split_constraints \<and>
   (\<forall>i < length split_constraints.
      configs (AdjustSplitConstraintsForMinSdk min_sdk split_constraints ! i) =
        (\<lambda>config. if uint (sdkVersion config) \<le> sint min_sdk
                   then config\<lparr>sdkVersion := 0\<rparr> else config) |`|
        configs (split_constraints ! i)) \<and>
   (\<forall>i < length split_constraints. \<forall>config.
      config |\<in>| configs (split_constraints ! i) \<longrightarrow>
        (sdkVersion config = 18 \<longrightarrow>
           config\<lparr>sdkVersion := 0\<rparr> |\<in>|
             configs (AdjustSplitConstraintsForMinSdk 21 split_constraints ! i)) \<and>
        (sdkVersion config = 23 \<longrightarrow>
           config |\<in>| configs (AdjustSplitConstraintsForMinSdk 21 split_constraints ! i)))"
proof (intro conjI allI impI)
  show "length (AdjustSplitConstraintsForMinSdk min_sdk split_constraints) = length split_constraints"
    by (rule Adjust_length)
next
  fix i assume "i < length split_constraints"
  then show "configs (AdjustSplitConstraintsForMinSdk min_sdk split_constraints ! i) =
        (\<lambda>config. if uint (sdkVersion config) \<le> sint min_sdk
                   then config\<lparr>sdkVersion := 0\<rparr> else config) |`|
        configs (split_constraints ! i)"
    by (simp add: Adjust_nth AdjustConfig_fun)
next
  fix i config
  assume i: "i < length split_constraints"
    and c: "config |\<in>| configs (split_constraints ! i)"
    and v: "sdkVersion config = 18"
  have "AdjustConfig 21 config = config\<lparr>sdkVersion := 0\<rparr>"
    using v by (simp add: AdjustConfig_def CopyWithoutSdkVersion_def)
  with c have "config\<lparr>sdkVersion := 0\<rparr> |\<in>| AdjustConfig 21 |`| configs (split_constraints ! i)"
    by (metis fimageI)
  then show "config\<lparr>sdkVersion := 0\<rparr> |\<in>|
             configs (AdjustSplitConstraintsForMinSdk 21 split_constraints ! i)"
    by (simp add: Adjust_nth [OF i])
next
  fix i config
  assume i: "i < length split_constraints"
    and c: "config |\<in>| configs (split_constraints ! i)"
    and v: "sdkVersion config = 23"
  have "AdjustConfig 21 config = config"
    using v by (simp add: AdjustConfig_def)
  with c have "config |\<in>| AdjustConfig 21 |`| configs (split_constraints ! i)"
    by (metis fimageI)
  then show "config |\<in>| configs (AdjustSplitConstraintsForMinSdk 21 split_constraints ! i)"
    by (simp add: Adjust_nth [OF i])
qed

theorem AdjustSplitConstraintsForMinSdk_strips_witness:
  "length (AdjustSplitConstraintsForMinSdk 21
     [\<lparr>configs = {|\<lparr>density = 0, sdkVersion = 18, axes = ''en''\<rparr>,
                   \<lparr>density = 0, sdkVersion = 23, axes = ''en''\<rparr>|}\<rparr>]) = 1 \<and>
   configs (AdjustSplitConstraintsForMinSdk 21
     [\<lparr>configs = {|\<lparr>density = 0, sdkVersion = 18, axes = ''en''\<rparr>,
                   \<lparr>density = 0, sdkVersion = 23, axes = ''en''\<rparr>|}\<rparr>] ! 0) =
     {|\<lparr>density = 0, sdkVersion = 0, axes = ''en''\<rparr>,
       \<lparr>density = 0, sdkVersion = 23, axes = ''en''\<rparr>|}"
  using AdjustSplitConstraintsForMinSdk_strips [of 21
     "[\<lparr>configs = {|\<lparr>density = 0, sdkVersion = 18, axes = ''en''\<rparr>,
                    \<lparr>density = 0, sdkVersion = 23, axes = ''en''\<rparr>|}\<rparr>]"]
  by simp

text \<open>
  Claim C4. Adjusting twice with the same minimum SDK gives the sequence that adjusting
  once gives.
\<close>

theorem AdjustSplitConstraintsForMinSdk_idempotent:
  "AdjustSplitConstraintsForMinSdk min_sdk
     (AdjustSplitConstraintsForMinSdk min_sdk split_constraints) =
   AdjustSplitConstraintsForMinSdk min_sdk split_constraints"
  by (simp add: AdjustSplitConstraintsForMinSdk_def fset.map_comp comp_def AdjustConfig_idem)

theorem AdjustSplitConstraintsForMinSdk_idempotent_witness:
  "AdjustSplitConstraintsForMinSdk 21
     (AdjustSplitConstraintsForMinSdk 21
        [\<lparr>configs = {|\<lparr>density = 0, sdkVersion = 18, axes = ''en''\<rparr>,
                      \<lparr>density = 0, sdkVersion = 23, axes = ''en''\<rparr>|}\<rparr>]) =
   AdjustSplitConstraintsForMinSdk 21
     [\<lparr>configs = {|\<lparr>density = 0, sdkVersion = 18, axes = ''en''\<rparr>,
                   \<lparr>density = 0, sdkVersion = 23, axes = ''en''\<rparr>|}\<rparr>]"
  by (rule AdjustSplitConstraintsForMinSdk_idempotent)

lemma fcard_fimage_le: "fcard (f |`| A) \<le> fcard A"
  by (simp add: fcard.rep_eq card_image_le)

lemma fcard_fimage_less:
  assumes "a |\<in>| A" "b |\<in>| A" "a \<noteq> b" "f a = f b"
  shows "fcard (f |`| A) < fcard A"
proof -
  have "f |`| A = f |`| (A |-| {|a|})"
    using assms by (auto simp: fimage_iff) 
  then have "fcard (f |`| A) \<le> fcard (A |-| {|a|})"
    by (simp add: fcard_fimage_le)
  also have "\<dots> < fcard A"
    using assms(1) by (rule fcard_fminus1_less)
  finally show ?thesis .
qed

text \<open>
  Claim C9. Each adjusted set is the input set with every descriptor whose SDK version
  is at most the minimum replaced by its stripped copy, so it has at most as many
  descriptors as the input set. When two descriptors of the input set differ in their
  SDK version only and both SDK versions are at most the minimum, stripping maps them
  to the same descriptor, that descriptor is in the adjusted set, and the adjusted set
  has strictly fewer descriptors than the input set: the two have become one.
\<close>

theorem AdjustSplitConstraintsForMinSdk_shrinks:
  "(\<forall>i < length split_constraints.
      configs (AdjustSplitConstraintsForMinSdk min_sdk split_constraints ! i) =
        (\<lambda>config. if uint (sdkVersion config) \<le> sint min_sdk
                   then config\<lparr>sdkVersion := 0\<rparr> else config) |`|
        configs (split_constraints ! i) \<and>
      fcard (configs (AdjustSplitConstraintsForMinSdk min_sdk split_constraints ! i))
        \<le> fcard (configs (split_constraints ! i))) \<and>
   (\<forall>i < length split_constraints. \<forall>a b.
      a |\<in>| configs (split_constraints ! i) \<and> b |\<in>| configs (split_constraints ! i) \<and>
      sdkVersion a \<noteq> sdkVersion b \<and> density a = density b \<and> axes a = axes b \<and>
      uint (sdkVersion a) \<le> sint min_sdk \<and> uint (sdkVersion b) \<le> sint min_sdk \<longrightarrow>
      a\<lparr>sdkVersion := 0\<rparr> = b\<lparr>sdkVersion := 0\<rparr> \<and>
      a\<lparr>sdkVersion := 0\<rparr> |\<in>|
        configs (AdjustSplitConstraintsForMinSdk min_sdk split_constraints ! i) \<and>
      fcard (configs (AdjustSplitConstraintsForMinSdk min_sdk split_constraints ! i))
        < fcard (configs (split_constraints ! i)))"
proof (intro conjI allI impI)
  fix i assume "i < length split_constraints"
  then show "configs (AdjustSplitConstraintsForMinSdk min_sdk split_constraints ! i) =
        (\<lambda>config. if uint (sdkVersion config) \<le> sint min_sdk
                   then config\<lparr>sdkVersion := 0\<rparr> else config) |`|
        configs (split_constraints ! i)"
    by (simp add: Adjust_nth AdjustConfig_fun)
next
  fix i assume "i < length split_constraints"
  then show "fcard (configs (AdjustSplitConstraintsForMinSdk min_sdk split_constraints ! i))
        \<le> fcard (configs (split_constraints ! i))"
    by (simp add: Adjust_nth fcard_fimage_le)
next
  fix i a b
  assume i: "i < length split_constraints"
    and h: "a |\<in>| configs (split_constraints ! i) \<and> b |\<in>| configs (split_constraints ! i) \<and>
      sdkVersion a \<noteq> sdkVersion b \<and> density a = density b \<and> axes a = axes b \<and>
      uint (sdkVersion a) \<le> sint min_sdk \<and> uint (sdkVersion b) \<le> sint min_sdk"
  from h have ne: "a \<noteq> b" by auto
  from h show same: "a\<lparr>sdkVersion := 0\<rparr> = b\<lparr>sdkVersion := 0\<rparr>"
    by simp
  from h have sa: "AdjustConfig min_sdk a = a\<lparr>sdkVersion := 0\<rparr>"
    by (simp add: AdjustConfig_def CopyWithoutSdkVersion_def)
  from h have sb: "AdjustConfig min_sdk b = b\<lparr>sdkVersion := 0\<rparr>"
    by (simp add: AdjustConfig_def CopyWithoutSdkVersion_def)
  from sa sb same have eq: "AdjustConfig min_sdk a = AdjustConfig min_sdk b"
    by simp
  from h have "AdjustConfig min_sdk a |\<in>| AdjustConfig min_sdk |`| configs (split_constraints ! i)"
    by (metis fimageI)
  then show "a\<lparr>sdkVersion := 0\<rparr> |\<in>|
        configs (AdjustSplitConstraintsForMinSdk min_sdk split_constraints ! i)"
    by (simp add: Adjust_nth [OF i] sa)
  from h ne eq
  have "fcard (AdjustConfig min_sdk |`| configs (split_constraints ! i))
          < fcard (configs (split_constraints ! i))"
    by (intro fcard_fimage_less [of a _ b]) simp_all
  then show "fcard (configs (AdjustSplitConstraintsForMinSdk min_sdk split_constraints ! i))
        < fcard (configs (split_constraints ! i))"
    by (simp add: Adjust_nth [OF i])
qed

theorem AdjustSplitConstraintsForMinSdk_shrinks_witness:
  "\<lparr>density = 240, sdkVersion = 18, axes = ''en''\<rparr>\<lparr>sdkVersion := 0\<rparr> =
     \<lparr>density = 240, sdkVersion = 19, axes = ''en''\<rparr>\<lparr>sdkVersion := 0\<rparr> \<and>
   \<lparr>density = 240, sdkVersion = 0, axes = ''en''\<rparr> |\<in>|
     configs (AdjustSplitConstraintsForMinSdk 21
       [\<lparr>configs = {|\<lparr>density = 240, sdkVersion = 18, axes = ''en''\<rparr>,
                     \<lparr>density = 240, sdkVersion = 19, axes = ''en''\<rparr>|}\<rparr>] ! 0) \<and>
   fcard (configs (AdjustSplitConstraintsForMinSdk 21
     [\<lparr>configs = {|\<lparr>density = 240, sdkVersion = 18, axes = ''en''\<rparr>,
                   \<lparr>density = 240, sdkVersion = 19, axes = ''en''\<rparr>|}\<rparr>] ! 0))
     < fcard {|\<lparr>density = 240, sdkVersion = 18, axes = ''en''\<rparr>,
               \<lparr>density = 240, sdkVersion = 19, axes = ''en''\<rparr>|} \<and>
   configs (AdjustSplitConstraintsForMinSdk 21
     [\<lparr>configs = {|\<lparr>density = 240, sdkVersion = 18, axes = ''en''\<rparr>,
                   \<lparr>density = 240, sdkVersion = 19, axes = ''en''\<rparr>|}\<rparr>] ! 0) =
     {|\<lparr>density = 240, sdkVersion = 0, axes = ''en''\<rparr>|}"
  using
    AdjustSplitConstraintsForMinSdk_shrinks [of
     "[\<lparr>configs = {|\<lparr>density = 240, sdkVersion = 18, axes = ''en''\<rparr>,
                    \<lparr>density = 240, sdkVersion = 19, axes = ''en''\<rparr>|}\<rparr>]" 21,
     THEN conjunct2, rule_format, of 0
       "\<lparr>density = 240, sdkVersion = 18, axes = ''en''\<rparr>"
       "\<lparr>density = 240, sdkVersion = 19, axes = ''en''\<rparr>"]
    AdjustSplitConstraintsForMinSdk_shrinks [of
     "[\<lparr>configs = {|\<lparr>density = 240, sdkVersion = 18, axes = ''en''\<rparr>,
                    \<lparr>density = 240, sdkVersion = 19, axes = ''en''\<rparr>|}\<rparr>]" 21,
     THEN conjunct1, rule_format, of 0]
  by simp

subsection \<open>The split manifest\<close>

text \<open>
  Claim C5. The root element of the document that \<^verbatim>\<open>GenerateSplitManifest\<close> builds is
  the \<open>manifest\<close> element. Without a split name, its \<open>split\<close> attribute is
  \<open>config.\<close> followed by the printed descriptors of the constraint set, in the order of
  the set and joined by \<open>_\<close>, and it has no \<open>configForSplit\<close> attribute. With a split
  name, its \<open>split\<close> attribute is the name, then \<open>.\<close>, then that same string, and its
  \<open>configForSplit\<close> attribute is the name. The order of the set is the sorted one: the
  list is sorted, without repetition, and has the elements of the set.
\<close>

theorem GenerateSplitManifest_split_attribute:
  "(case FindRootElement (root (GenerateSplitManifest ext show_config app_info constraints)) of
      None \<Rightarrow> False
    | Some manifest_el \<Rightarrow>
        element_name manifest_el = ''manifest'' \<and>
        (case split_name app_info of
           None \<Rightarrow>
             FindAttribute manifest_el [] ''split'' =
               Some \<lparr>namespace_uri = [], name = ''split'',
                     value = ''config.'' @
                       Joiner (map show_config (sorted_list_of_fset (configs constraints))) ''_'',
                     compiled_attribute = None, compiled_value = None\<rparr> \<and>
             FindAttribute manifest_el [] ''configForSplit'' = None
         | Some n \<Rightarrow>
             FindAttribute manifest_el [] ''split'' =
               Some \<lparr>namespace_uri = [], name = ''split'',
                     value = n @ ''.'' @ ''config.'' @
                       Joiner (map show_config (sorted_list_of_fset (configs constraints))) ''_'',
                     compiled_attribute = None, compiled_value = None\<rparr> \<and>
             FindAttribute manifest_el [] ''configForSplit'' =
               Some \<lparr>namespace_uri = [], name = ''configForSplit'', value = n,
                     compiled_attribute = None, compiled_value = None\<rparr>)) \<and>
   sorted (sorted_list_of_fset (configs constraints)) \<and>
   distinct (sorted_list_of_fset (configs constraints)) \<and>
   set (sorted_list_of_fset (configs constraints)) = fset (configs constraints)"
  by (simp add: GenerateSplitManifest_def FindRootElement_def FindAttribute_def Let_def
      sorted_list_of_fset.rep_eq split: option.splits)

lemma sorted_fr_en: "sorted_list_of_fset {|''fr'', ''en''|} = [''en'', ''fr'']"
  by code_simp

theorem GenerateSplitManifest_split_attribute_witness:
  "(case FindRootElement (root (GenerateSplitManifest sample_externals (\<lambda>c. c)
           \<lparr>package = ''com.example'', min_sdk_version = None, version_code = Some 7,
            revision_code = None, split_name = Some ''feature''\<rparr>
           \<lparr>configs = {|''fr'', ''en''|}\<rparr>)) of
      None \<Rightarrow> False
    | Some manifest_el \<Rightarrow>
        map_option value (FindAttribute manifest_el [] ''split'') = Some ''feature.config.en_fr'' \<and>
        map_option value (FindAttribute manifest_el [] ''configForSplit'') = Some ''feature'') \<and>
   (case FindRootElement (root (GenerateSplitManifest sample_externals (\<lambda>c. c)
           \<lparr>package = ''com.example'', min_sdk_version = None, version_code = None,
            revision_code = None, split_name = None\<rparr>
           \<lparr>configs = {|''fr'', ''en''|}\<rparr>)) of
      None \<Rightarrow> False
    | Some manifest_el \<Rightarrow>
        map_option value (FindAttribute manifest_el [] ''split'') = Some ''config.en_fr'' \<and>
        FindAttribute manifest_el [] ''configForSplit'' = None)"
  using
    GenerateSplitManifest_split_attribute [where ext = sample_externals
      and show_config = "\<lambda>c. c" and constraints = "\<lparr>configs = {|''fr'', ''en''|}\<rparr>" and app_info =
      "\<lparr>package = ''com.example'', min_sdk_version = None, version_code = Some 7,
        revision_code = None, split_name = Some ''feature''\<rparr>"]
    GenerateSplitManifest_split_attribute [where ext = sample_externals
      and show_config = "\<lambda>c. c" and constraints = "\<lparr>configs = {|''fr'', ''en''|}\<rparr>" and app_info =
      "\<lparr>package = ''com.example'', min_sdk_version = None, version_code = None,
        revision_code = None, split_name = None\<rparr>"]
  by (simp add: sorted_fr_en split: option.splits)

subsection \<open>Application information\<close>

lemma FindChild_no_elements:
  "\<forall>c \<in> set cs. \<not> is_Element c \<Longrightarrow> FindChild (Element ns n attrs l cs) ns' n' = None"
proof -
  assume h: "\<forall>c \<in> set cs. \<not> is_Element c"
  have "\<not> is_named_element ns' n' c" if "c \<in> set cs" for c
    using h that by (cases c) (auto simp: Node.is_Element_def)
  then show ?thesis
    by (simp add: FindChild_def find_None_iff)
qed

lemma ExtractMinSdk_no_uses_sdk:
  "FindChild manifest_el [] ''uses-sdk'' = None \<Longrightarrow>
   ExtractMinSdk ext xml_res manifest_el app_info diag = (Some app_info, diag)"
  by (simp add: ExtractMinSdk_def)

lemma ExtractSplitName_absent:
  "FindAttribute manifest_el [] ''split'' = None \<Longrightarrow>
   ExtractSplitName ext xml_res manifest_el app_info diag =
   ExtractMinSdk ext xml_res manifest_el app_info diag"
  by (simp add: ExtractSplitName_def)

lemma ExtractRevisionCode_absent:
  "FindAttribute manifest_el (kSchemaAndroid ext) ''revisionCode'' = None \<Longrightarrow>
   ExtractRevisionCode ext xml_res manifest_el app_info diag =
   ExtractSplitName ext xml_res manifest_el app_info diag"
  by (simp add: ExtractRevisionCode_def)

lemma ExtractVersionCode_absent:
  "FindAttribute manifest_el (kSchemaAndroid ext) ''versionCode'' = None \<Longrightarrow>
   ExtractVersionCode ext xml_res manifest_el app_info diag =
   ExtractRevisionCode ext xml_res manifest_el app_info diag"
  by (simp add: ExtractVersionCode_def)

text \<open>
  Claim C2. For every document whose root element is \<open>manifest\<close> with an empty
  namespace, whose only attribute is \<open>package\<close> with the value \<open>com.example\<close> (as
  text, and as compiled string when a compiled value is there) and which has no child
  element, \<^verbatim>\<open>ExtractAppInfoFromBinaryManifest\<close> reports nothing and returns the
  \<^verbatim>\<open>AppInfo\<close> with the package \<open>com.example\<close>, no version code, no revision code, no
  split name, and the minimum SDK version left absent, which reads as the default 0.
\<close>

theorem ExtractAppInfo_minimal_manifest:
  assumes root: "FindRootElement (root xml_res) = Some (Element [] ''manifest'' [attr] l cs)"
    and ns: "namespace_uri attr = []"
    and nm: "name attr = ''package''"
    and val: "value attr = ''com.example''"
    and cv: "compiled_value attr = None \<or> compiled_value attr = Some (String ''com.example'')"
    and cs: "\<forall>c \<in> set cs. \<not> is_Element c"
  shows "ExtractAppInfoFromBinaryManifest ext xml_res diag =
           (Some \<lparr>package = ''com.example'', min_sdk_version = None, version_code = None,
                  revision_code = None, split_name = None\<rparr>, diag) \<and>
         min_sdk_version_or_default
           \<lparr>package = ''com.example'', min_sdk_version = None, version_code = None,
            revision_code = None, split_name = None\<rparr> = 0"
proof -
  let ?el = "Element [] ''manifest'' [attr] l cs"
  have pkg: "FindAttribute ?el [] ''package'' = Some attr"
    using ns nm by (simp add: FindAttribute_def)
  have str: "ExtractCompiledString attr = Inr ''com.example''"
    using cv val by (auto simp: ExtractCompiledString_def)
  have vc: "FindAttribute ?el (kSchemaAndroid ext) ''versionCode'' = None"
    using nm by (simp add: FindAttribute_def)
  have rc: "FindAttribute ?el (kSchemaAndroid ext) ''revisionCode'' = None"
    using nm by (simp add: FindAttribute_def)
  have sp: "FindAttribute ?el [] ''split'' = None"
    using nm by (simp add: FindAttribute_def)
  have us: "FindChild ?el [] ''uses-sdk'' = None"
    using cs by (rule FindChild_no_elements)
  have "ExtractVersionCode ext xml_res ?el (AppInfo_default\<lparr>package := ''com.example''\<rparr>) diag =
          (Some (AppInfo_default\<lparr>package := ''com.example''\<rparr>), diag)"
    by (simp only: ExtractVersionCode_absent [OF vc] ExtractRevisionCode_absent [OF rc]
        ExtractSplitName_absent [OF sp] ExtractMinSdk_no_uses_sdk [OF us])
  then have "ExtractAppInfoFromBinaryManifest ext xml_res diag =
          (Some (AppInfo_default\<lparr>package := ''com.example''\<rparr>), diag)"
    by (simp add: ExtractAppInfoFromBinaryManifest_def root pkg str)
  then show ?thesis
    by (simp add: AppInfo_default_def min_sdk_version_or_default_def)
qed

theorem ExtractAppInfo_minimal_manifest_witness:
  "ExtractAppInfoFromBinaryManifest sample_externals sample_minimal_manifest [] =
     (Some \<lparr>package = ''com.example'', min_sdk_version = None, version_code = None,
            revision_code = None, split_name = None\<rparr>, []) \<and>
   min_sdk_version_or_default
     \<lparr>package = ''com.example'', min_sdk_version = None, version_code = None,
      revision_code = None, split_name = None\<rparr> = 0"
  by (rule ExtractAppInfo_minimal_manifest
        [where attr = "\<lparr>namespace_uri = [], name = ''package'', value = ''com.example'',
                        compiled_attribute = None, compiled_value = None\<rparr>"
           and l = 2 and cs = "[]"])
     (simp_all add: sample_minimal_manifest_def FindRootElement_def)

text \<open>
  Claim C8, with the anchoring that the source has. When the root element is
  \<open>manifest\<close> with an empty namespace and has no \<open>package\<close> attribute,
  \<^verbatim>\<open>ExtractAppInfoFromBinaryManifest\<close> returns nothing and reports the error
  \<open><manifest> must have a 'package' attribute\<close>, anchored at the source of the document
  as it stands: the line number of the root element is not added, although the element
  is there. On the sample document, whose root element is on line 7, the location of
  the one message has no line.
\<close>

theorem ExtractAppInfo_missing_package:
  assumes root: "FindRootElement (root xml_res) = Some manifest_el"
    and ns: "element_namespace_uri manifest_el = []"
    and nm: "element_name manifest_el = ''manifest''"
    and pkg: "FindAttribute manifest_el [] ''package'' = None"
  shows "ExtractAppInfoFromBinaryManifest ext xml_res diag =
           (None,
            diag @ [\<lparr>level = Error, location = source (file xml_res),
                     message = ''<manifest> must have a 'package' attribute''\<rparr>])"
  by (simp add: ExtractAppInfoFromBinaryManifest_def root ns nm pkg Emit_def)

theorem ExtractAppInfo_missing_package_witness:
  "ExtractAppInfoFromBinaryManifest sample_externals sample_manifest_without_package [] =
     (None,
      [\<lparr>level = Error, location = \<lparr>path = ''AndroidManifest.xml'', line = None\<rparr>,
        message = ''<manifest> must have a 'package' attribute''\<rparr>])"
  using ExtractAppInfo_missing_package
    [of sample_manifest_without_package "Element [] ''manifest'' [] 7 []" sample_externals "[]"]
  by (simp add: sample_manifest_without_package_def FindRootElement_def FindAttribute_def)

theorem missing_package_diagnostic_without_line:
  "FindRootElement (root sample_manifest_without_package) = Some (Element [] ''manifest'' [] 7 []) \<and>
   line_number (Element [] ''manifest'' [] 7 []) = 7 \<and>
   FindAttribute (Element [] ''manifest'' [] 7 []) [] ''package'' = None \<and>
   fst (ExtractAppInfoFromBinaryManifest sample_externals sample_manifest_without_package []) = None \<and>
   map location
     (snd (ExtractAppInfoFromBinaryManifest sample_externals sample_manifest_without_package []))
     = [\<lparr>path = ''AndroidManifest.xml'', line = None\<rparr>] \<and>
   map location
     (snd (ExtractAppInfoFromBinaryManifest sample_externals sample_manifest_without_package []))
     \<noteq> [WithLine (source (file sample_manifest_without_package)) 7]"
  by (simp add: sample_manifest_without_package_def FindRootElement_def FindAttribute_def
      ExtractAppInfoFromBinaryManifest_def Emit_def WithLine_def)

end
